theory Spec2Isabelle
  imports Main "HOL-Library.Multiset"
begin

section \<open>The cache engine of \<^verbatim>\<open>src/lib/stores/inventoryCache.js\<close>\<close>

text \<open>
  The engine owns one store value (\<^verbatim>\<open>CacheState\<close>), mirrors the record list and
  its metadata in \<^verbatim>\<open>localStorage\<close> under two fixed keys, and talks to the remote
  collection through \<^verbatim>\<open>odooClient\<close>. Every operation is modelled as a function
  from the world before the call to the world after it, run to completion without another
  operation interleaving at an \<^verbatim>\<open>await\<close>. What the operation cannot decide on
  its own (the answers of the remote client, the clock, the JSON codec, whether
  \<^verbatim>\<open>localStorage.setItem\<close> throws) is read from an environment.
\<close>

subsection \<open>Data\<close>

text \<open>A JavaScript \<^verbatim>\<open>Error\<close>, by its \<^verbatim>\<open>message\<close>.\<close>

datatype js_error = Error string

fun message :: "js_error \<Rightarrow> string" where
  "message (Error m) = m"

datatype js_value = JNum int | JStr string | JBool bool | JNull

text \<open>
  \<^verbatim>\<open>InventoryRecord\<close> is typed \<^verbatim>\<open>{id: number, x_name: string, ...}\<close>: the
  identity is a number field of its own, \<open>attrs\<close> are the other keys.
\<close>

type_synonym fields = "string \<rightharpoonup> js_value"

record inventory_record =
  rec_id :: int
  attrs :: fields

text \<open>
  \<^verbatim>\<open>Record<string, any>\<close>, the payload of a mutation (\<^verbatim>\<open>fields\<close> of
  \<^verbatim>\<open>createRecord\<close>, \<^verbatim>\<open>values\<close> of \<^verbatim>\<open>updateRecord\<close>). A payload may
  carry the key \<^verbatim>\<open>id\<close> (a number, as \<^verbatim>\<open>InventoryRecord\<close> types it), which a
  spread copies like any other key; it is kept apart from the other keys because it lands
  in the number field of the record.
\<close>

record payload =
  payload_id :: "int option"
  payload_attrs :: fields

text \<open>
  The two object spreads of the mutations. In \<^verbatim>\<open>{ id, ...fields }\<close> and in
  \<^verbatim>\<open>{ ...r, ...values }\<close> the keys of the payload come last and win, the key
  \<^verbatim>\<open>id\<close> included.
\<close>

definition spread_new :: "int \<Rightarrow> payload \<Rightarrow> inventory_record" where
  "spread_new i flds =
     \<lparr>rec_id = (case payload_id flds of None \<Rightarrow> i | Some j \<Rightarrow> j),
      attrs = payload_attrs flds\<rparr>"

definition spread_patch :: "inventory_record \<Rightarrow> payload \<Rightarrow> inventory_record" where
  "spread_patch r vals =
     \<lparr>rec_id = (case payload_id vals of None \<Rightarrow> rec_id r | Some j \<Rightarrow> j),
      attrs = attrs r ++ payload_attrs vals\<rparr>"

record cache_meta =
  lastSyncTime :: int
  lastRecordId :: int
  recordCount :: nat
  isStale :: bool

record cache_state =
  records :: "inventory_record list"
  loading :: bool
  syncing :: bool
  error :: string
  meta :: cache_meta

text \<open>\<^verbatim>\<open>localStorage\<close>: string keys to string values.\<close>

type_synonym local_storage = "string \<rightharpoonup> string"

text \<open>An Odoo domain: a list of \<^verbatim>\<open>[field, operator, value]\<close> triples.\<close>

type_synonym domain = "(string \<times> string \<times> int) list"

text \<open>
  The environment of one operation.
  \<^item> \<open>odoo_searchRecords d\<close> is \<^verbatim>\<open>odooClient.searchRecords('x_inventory', d, fields)\<close>:
    the records, or the error it throws; the other three are the create, update and delete
    calls of the client on \<^verbatim>\<open>'x_inventory'\<close>.
  \<^item> \<open>date_now n\<close> is what the \<open>n\<close>-th call of \<^verbatim>\<open>Date.now()\<close> in the operation
    returns (counted from 0).
  \<^item> \<open>json_parse_records\<close>, \<open>json_parse_meta\<close> are \<^verbatim>\<open>JSON.parse\<close> on the two
    stored strings, with the exception as \<open>Inl\<close> (for the metadata also the exception of
    reading \<^verbatim>\<open>lastSyncTime\<close> off a parsed \<^verbatim>\<open>null\<close>, which the same
    \<^verbatim>\<open>try\<close> catches); a stored string that deserializes is taken to hold a value
    of the type \<open>saveToStorage\<close> wrote. \<open>json_stringify_records\<close> and
    \<open>json_stringify_meta\<close> are \<^verbatim>\<open>JSON.stringify\<close>.
  \<^item> \<open>storage_accepts st k v\<close> tells whether \<^verbatim>\<open>localStorage.setItem(k, v)\<close>
    succeeds on the storage \<open>st\<close>; it throws otherwise (quota exceeded, storage disabled).
\<close>

record env =
  odoo_searchRecords :: "domain \<Rightarrow> js_error + inventory_record list"
  odoo_createRecord :: "payload \<Rightarrow> js_error + int"
  odoo_updateRecord :: "int \<Rightarrow> payload \<Rightarrow> js_error + bool"
  odoo_deleteRecord :: "int \<Rightarrow> js_error + bool"
  date_now :: "nat \<Rightarrow> int"
  json_parse_records :: "string \<Rightarrow> js_error + inventory_record list"
  json_parse_meta :: "string \<Rightarrow> js_error + cache_meta"
  json_stringify_records :: "inventory_record list \<Rightarrow> string"
  json_stringify_meta :: "cache_meta \<Rightarrow> string"
  storage_accepts :: "local_storage \<Rightarrow> string \<Rightarrow> string \<Rightarrow> bool"

text \<open>
  The world an operation runs in: the value of the writable store, the states the store
  has published to its subscribers so far (\<^verbatim>\<open>update\<close> notifies them at every
  call), and \<^verbatim>\<open>localStorage\<close>. The partner map is left out: the loop that would
  fill it is commented out in the source, so it stays empty.
\<close>

record world =
  store :: cache_state
  published :: "cache_state list"
  localStorage :: local_storage

subsection \<open>Cache configuration\<close>

definition CACHE_KEY :: string where
  "CACHE_KEY = ''inventory_cache_v1''"

definition CACHE_META_KEY :: string where
  "CACHE_META_KEY = ''inventory_cache_meta_v1''"

definition CACHE_DURATION_MS :: int where
  "CACHE_DURATION_MS = 5 * 60 * 1000"

text \<open>
  Not of the source but of the engine that runs it: the number of arguments one call
  takes. A spread call \<^verbatim>\<open>f(...xs)\<close> with a longer \<^verbatim>\<open>xs\<close> throws a
  \<^verbatim>\<open>RangeError\<close>. The value is JavaScriptCore's; V8's is of the same order and
  depends on the stack. The theorems use it by name only, the examples stay far on either
  side of it.
\<close>

definition engine_argument_limit :: nat where
  "engine_argument_limit = 65536"

subsection \<open>Helper functions for localStorage\<close>

definition default_cache :: "inventory_record list \<times> cache_meta" where
  "default_cache =
     ([], \<lparr>lastSyncTime = 0, lastRecordId = 0, recordCount = 0, isStale = True\<rparr>)"

text \<open>
  \<^verbatim>\<open>loadFromStorage\<close>. \<^verbatim>\<open>getItem\<close> gives \<^verbatim>\<open>null\<close> for a missing key;
  \<^verbatim>\<open>cachedData && meta\<close> is false when either is \<^verbatim>\<open>null\<close> or the empty
  string. An exception of \<^verbatim>\<open>JSON.parse\<close> is caught and the function falls
  through to the default.
\<close>

definition loadFromStorage :: "env \<Rightarrow> local_storage \<Rightarrow> inventory_record list \<times> cache_meta" where
  "loadFromStorage e st =
     (case st CACHE_KEY of
        None \<Rightarrow> default_cache
      | Some cachedData \<Rightarrow>
          (case st CACHE_META_KEY of
             None \<Rightarrow> default_cache
           | Some m \<Rightarrow>
               if cachedData \<noteq> [] \<and> m \<noteq> [] then
                 (case json_parse_records e cachedData of
                    Inl _ \<Rightarrow> default_cache
                  | Inr recs \<Rightarrow>
                      (case json_parse_meta e m of
                         Inl _ \<Rightarrow> default_cache
                       | Inr metaData \<Rightarrow>
                           (recs,
                            metaData\<lparr>isStale :=
                              date_now e 0 - lastSyncTime metaData > CACHE_DURATION_MS\<rparr>)))
               else default_cache))"

definition setItem :: "env \<Rightarrow> local_storage \<Rightarrow> string \<Rightarrow> string \<Rightarrow> js_error + local_storage" where
  "setItem e st k v =
     (if storage_accepts e st k v then Inr (st(k \<mapsto> v))
      else Inl (Error ''QuotaExceededError''))"

text \<open>
  \<^verbatim>\<open>saveToStorage(records, meta)\<close>: two writes in a \<^verbatim>\<open>try\<close> whose
  \<^verbatim>\<open>catch\<close> only logs. \<open>now\<close> is what \<^verbatim>\<open>Date.now()\<close> returns if the
  second statement calls it, which it does when \<^verbatim>\<open>meta.lastSyncTime\<close> is 0.
\<close>

definition saveToStorage ::
  "env \<Rightarrow> inventory_record list \<Rightarrow> cache_meta \<Rightarrow> int \<Rightarrow> local_storage \<Rightarrow> local_storage" where
  "saveToStorage e recs m now st =
     (case setItem e st CACHE_KEY (json_stringify_records e recs) of
        Inl _ \<Rightarrow> st
      | Inr st1 \<Rightarrow>
          (case setItem e st1 CACHE_META_KEY
                  (json_stringify_meta e
                     \<lparr>lastSyncTime = (if lastSyncTime m \<noteq> 0 then lastSyncTime m else now),
                      lastRecordId = (if lastRecordId m \<noteq> 0 then lastRecordId m else 0),
                      recordCount = length recs,
                      isStale = False\<rparr>) of
             Inl _ \<Rightarrow> st1
           | Inr st2 \<Rightarrow> st2))"

definition clearStorage :: "local_storage \<Rightarrow> local_storage" where
  "clearStorage st = (st(CACHE_KEY := None))(CACHE_META_KEY := None)"

subsection \<open>The store\<close>

text \<open>\<^verbatim>\<open>update(fn)\<close> of the writable store: set the value and notify.\<close>

definition update :: "(cache_state \<Rightarrow> cache_state) \<Rightarrow> world \<Rightarrow> world" where
  "update f w = w\<lparr>store := f (store w), published := published w @ [f (store w)]\<rparr>"

text \<open>\<^verbatim>\<open>createCacheStore\<close>: the store starts from what the mirror holds.\<close>

definition createCacheStore :: "env \<Rightarrow> local_storage \<Rightarrow> world" where
  "createCacheStore e st =
     (let initialCache = loadFromStorage e st in
      \<lparr>store = \<lparr>records = fst initialCache, loading = False, syncing = False,
                 error = [], meta = snd initialCache\<rparr>,
       published = [],
       localStorage = st\<rparr>)"

text \<open>
  \<^verbatim>\<open>resolvePartnerNames\<close>: with the partner fields commented out no identity is
  collected, nothing is fetched, and every record is copied as it is.
\<close>

definition resolvePartnerNames :: "inventory_record list \<Rightarrow> inventory_record list" where
  "resolvePartnerNames recs = map (\<lambda>record. record) recs"

subsection \<open>sync\<close>

text \<open>
  The fetch of \<^verbatim>\<open>sync\<close> (the two \<^verbatim>\<open>if\<close> statements before the merge),
  from the flag and the watermark \<^verbatim>\<open>currentState.meta.lastRecordId\<close>: the flag
  as the fetch leaves it and the fetched records, or the error of the full fetch, which
  nothing catches before the outer \<^verbatim>\<open>catch\<close>.
\<close>

definition sync_fetch :: "env \<Rightarrow> bool \<Rightarrow> int \<Rightarrow> js_error + (bool \<times> inventory_record list)" where
  "sync_fetch e forceFullRefresh watermark =
     (let (force, fetchedRecords) =
            (if \<not> forceFullRefresh \<and> watermark > 0 then
               (case odoo_searchRecords e [(''id'', ''>'', watermark)] of
                  Inr rs \<Rightarrow> (forceFullRefresh, rs)
                | Inl err \<Rightarrow> (True, []))
             else (forceFullRefresh, []))
      in if force \<or> watermark = 0 then
           (case odoo_searchRecords e [] of
              Inl err \<Rightarrow> Inl err
            | Inr rs \<Rightarrow> Inr (force, rs))
         else Inr (force, fetchedRecords))"

text \<open>Merge or replace, then sort by identity (\<^verbatim>\<open>Array.prototype.sort\<close> is stable).\<close>

definition sync_merge ::
  "bool \<Rightarrow> cache_state \<Rightarrow> inventory_record list \<Rightarrow> inventory_record list" where
  "sync_merge force currentState fetchedRecords =
     sort_key rec_id
       (if force \<or> lastRecordId (meta currentState) = 0 then fetchedRecords
        else
          (let existingIds = set (map rec_id (records currentState));
               newRecords = filter (\<lambda>r. rec_id r \<notin> existingIds) fetchedRecords
           in records currentState @ newRecords))"

text \<open>
  \<^verbatim>\<open>recs.length > 0 ? Math.max(...recs.map(r => r.id)) : 0\<close>. The spread passes
  every identity as an argument of one call, which throws beyond the engine's limit.
\<close>

definition max_record_id :: "inventory_record list \<Rightarrow> js_error + int" where
  "max_record_id recs =
     (case map rec_id recs of
        [] \<Rightarrow> Inr 0
      | x # xs \<Rightarrow>
          if engine_argument_limit < length (x # xs)
          then Inl (Error ''Maximum call stack size exceeded'')
          else Inr (fold max xs x))"

text \<open>
  \<^verbatim>\<open>sync\<close>. Whatever is thrown inside the \<^verbatim>\<open>try\<close> (by the unfiltered
  fetch, by \<^verbatim>\<open>Math.max\<close>) ends in the one \<^verbatim>\<open>catch\<close>, before the mirror is
  written or the new records are published.
\<close>

definition sync_failed :: "js_error \<Rightarrow> world \<Rightarrow> world" where
  "sync_failed err w1 =
     update (\<lambda>state. state\<lparr>syncing := False,
                error := (if message err \<noteq> [] then message err
                          else ''Failed to sync data'')\<rparr>) w1"

definition sync :: "env \<Rightarrow> bool \<Rightarrow> world \<Rightarrow> world" where
  "sync e forceFullRefresh w =
     (let w1 = update (\<lambda>state. state\<lparr>syncing := True, error := []\<rparr>) w;
          currentState = store w1
      in case sync_fetch e forceFullRefresh (lastRecordId (meta currentState)) of
           Inl err \<Rightarrow> sync_failed err w1
         | Inr (force, fetchedRecords) \<Rightarrow>
             (let mergedRecords = sync_merge force currentState fetchedRecords;
                  recordsWithNames = resolvePartnerNames mergedRecords
              in case max_record_id recordsWithNames of
                   Inl err \<Rightarrow> sync_failed err w1
                 | Inr lastId \<Rightarrow>
                     (let newMeta = \<lparr>lastSyncTime = date_now e 0,
                                     lastRecordId = lastId,
                                     recordCount = length recordsWithNames,
                                     isStale = False\<rparr>;
                          w2 = w1\<lparr>localStorage :=
                                 saveToStorage e recordsWithNames newMeta (date_now e 1)
                                   (localStorage w1)\<rparr>
                      in update (\<lambda>state. state\<lparr>records := recordsWithNames, meta := newMeta,
                                                syncing := False, error := []\<rparr>) w2)))"

text \<open>\<^verbatim>\<open>forceRefresh\<close>: clear the mirror, then a forced full sync.\<close>

definition forceRefresh :: "env \<Rightarrow> world \<Rightarrow> world" where
  "forceRefresh e w = sync e True (w\<lparr>localStorage := clearStorage (localStorage w)\<rparr>)"

subsection \<open>Mutations\<close>

text \<open>
  Each returns what the caller gets (\<open>Inl\<close>: the error thrown again by the
  \<^verbatim>\<open>catch\<close>) and the world after the call.
\<close>

definition createRecord :: "env \<Rightarrow> payload \<Rightarrow> world \<Rightarrow> (js_error + int) \<times> world" where
  "createRecord e flds w =
     (case odoo_createRecord e flds of
        Inl err \<Rightarrow> (Inl err, w)
      | Inr i \<Rightarrow>
          (let newRecord = spread_new i flds;
               w1 = update (\<lambda>state. state\<lparr>records := records state @ [newRecord]\<rparr>) w
           in (Inr i, sync e False w1)))"

definition updateRecord :: "env \<Rightarrow> int \<Rightarrow> payload \<Rightarrow> world \<Rightarrow> (js_error + bool) \<times> world" where
  "updateRecord e i vals w =
     (case odoo_updateRecord e i vals of
        Inl err \<Rightarrow> (Inl err, w)
      | Inr _ \<Rightarrow>
          (let w1 = update (\<lambda>state. state\<lparr>records :=
                        map (\<lambda>r. if rec_id r = i then spread_patch r vals else r)
                          (records state)\<rparr>) w
           in (Inr True, sync e False w1)))"

definition deleteRecord :: "env \<Rightarrow> int \<Rightarrow> world \<Rightarrow> (js_error + bool) \<times> world" where
  "deleteRecord e i w =
     (case odoo_deleteRecord e i of
        Inl err \<Rightarrow> (Inl err, w)
      | Inr _ \<Rightarrow>
          (Inr True,
           update (\<lambda>state. state\<lparr>records := filter (\<lambda>r. rec_id r \<noteq> i) (records state)\<rparr>) w))"

section \<open>Example worlds\<close>

text \<open>Concrete records, remotes and worlds on which the theorems below are run.\<close>

definition item :: "int \<Rightarrow> string \<Rightarrow> inventory_record" where
  "item i name = \<lparr>rec_id = i, attrs = [''x_name'' \<mapsto> JStr name]\<rparr>"

definition offline :: js_error where
  "offline = Error ''Failed to fetch''"

text \<open>
  A remote collection answering a search: every record for the empty domain, the records
  with a greater identity for \<^verbatim>\<open>[['id', '>', v]]\<close>.
\<close>

definition remote_search :: "inventory_record list \<Rightarrow> domain \<Rightarrow> js_error + inventory_record list" where
  "remote_search collection d =
     Inr (filter (\<lambda>r. list_all (\<lambda>(f, opr, v). f = ''id'' \<and> opr = ''>'' \<and> v < rec_id r) d)
            collection)"

text \<open>The same remote when the filtered query fails and the unfiltered one works.\<close>

definition remote_search_unfiltered_only ::
  "inventory_record list \<Rightarrow> domain \<Rightarrow> js_error + inventory_record list" where
  "remote_search_unfiltered_only collection d =
     (if d = [] then Inr collection else Inl (Error ''Invalid domain''))"

text \<open>
  An environment with the remote unreachable, a mirror that takes every write, and a
  codec that knows two metadata strings: \<^verbatim>\<open>six\<close>, synced six minutes before the
  clock's first reading, and \<^verbatim>\<open>four\<close>, synced four minutes before it.
\<close>

definition demo_parse_meta :: "string \<Rightarrow> js_error + cache_meta" where
  "demo_parse_meta s =
     (if s = ''six'' then
        Inr \<lparr>lastSyncTime = 1700000000000 - 6 * 60 * 1000, lastRecordId = 2,
             recordCount = 2, isStale = False\<rparr>
      else if s = ''four'' then
        Inr \<lparr>lastSyncTime = 1700000000000 - 4 * 60 * 1000, lastRecordId = 2,
             recordCount = 2, isStale = False\<rparr>
      else Inl (Error ''Unexpected token''))"

definition demo_parse_records :: "string \<Rightarrow> js_error + inventory_record list" where
  "demo_parse_records s =
     (if s = ''two'' then Inr [item 1 ''Milk'', item 2 ''Eggs'']
      else Inl (Error ''Unexpected token''))"

definition demo_env :: env where
  "demo_env =
     \<lparr>odoo_searchRecords = (\<lambda>d. Inl offline),
      odoo_createRecord = (\<lambda>f. Inl offline),
      odoo_updateRecord = (\<lambda>i v. Inl offline),
      odoo_deleteRecord = (\<lambda>i. Inl offline),
      date_now = (\<lambda>n. 1700000000000 + int n),
      json_parse_records = demo_parse_records,
      json_parse_meta = demo_parse_meta,
      json_stringify_records = (\<lambda>rs. ''two''),
      json_stringify_meta = (\<lambda>m. ''four''),
      storage_accepts = (\<lambda>st k v. True)\<rparr>"

definition demo_world :: "inventory_record list \<Rightarrow> int \<Rightarrow> world" where
  "demo_world recs watermark =
     \<lparr>store = \<lparr>records = recs, loading = False, syncing = False, error = [],
                meta = \<lparr>lastSyncTime = 1699999990000, lastRecordId = watermark,
                         recordCount = length recs, isStale = False\<rparr>\<rparr>,
      published = [],
      localStorage = Map.empty\<rparr>"

definition demo_storage :: "string \<Rightarrow> string \<Rightarrow> local_storage" where
  "demo_storage c m = [CACHE_KEY \<mapsto> c, CACHE_META_KEY \<mapsto> m]"

text \<open>The pantry: two cached records, watermark 2.\<close>

definition pantry :: world where
  "pantry = demo_world [item 1 ''Milk'', item 2 ''Eggs''] 2"

text \<open>A remote whose filtered query fails while the unfiltered one answers.\<close>

definition fallback_env :: env where
  "fallback_env =
     demo_env\<lparr>odoo_searchRecords :=
       remote_search_unfiltered_only [item 2 ''Eggs'', item 1 ''Milk'', item 3 ''Jam'']\<rparr>"

text \<open>A remote that holds three records the pantry has not seen: 9, 3 and 7.\<close>

definition growing_env :: env where
  "growing_env =
     demo_env\<lparr>odoo_searchRecords :=
       remote_search [item 1 ''Milk'', item 2 ''Eggs'', item 9 ''Kiwi'', item 3 ''Jam'',
                      item 7 ''Tofu'']\<rparr>"

text \<open>The same remote three minutes later.\<close>

definition later_env :: env where
  "later_env = growing_env\<lparr>date_now := (\<lambda>n. 1700000180000 + int n)\<rparr>"

text \<open>A reachable remote with one record, and a mirror that refuses every write.\<close>

definition quota_env :: env where
  "quota_env =
     demo_env\<lparr>odoo_searchRecords := remote_search [item 1 ''Milk''],
              storage_accepts := (\<lambda>st k v. False)\<rparr>"

text \<open>A remote that accepts every mutation and assigns identity 3 to a new record.\<close>

definition online_env :: env where
  "online_env =
     demo_env\<lparr>odoo_searchRecords :=
                remote_search [item 1 ''Milk'', item 2 ''Eggs'', item 3 ''Jam''],
              odoo_createRecord := (\<lambda>f. Inr 3),
              odoo_updateRecord := (\<lambda>i v. Inr True),
              odoo_deleteRecord := (\<lambda>i. Inr True)\<rparr>"

text \<open>Payloads: two without the key \<^verbatim>\<open>id\<close>, one that carries \<^verbatim>\<open>id: 99\<close>.\<close>

definition jam :: payload where
  "jam = \<lparr>payload_id = None, payload_attrs = [''x_name'' \<mapsto> JStr ''Jam'']\<rparr>"

definition oat_milk :: payload where
  "oat_milk = \<lparr>payload_id = None, payload_attrs = [''x_name'' \<mapsto> JStr ''Oat milk'']\<rparr>"

definition jam_99 :: payload where
  "jam_99 = \<lparr>payload_id = Some 99, payload_attrs = [''x_name'' \<mapsto> JStr ''Jam'']\<rparr>"

text \<open>A remote whose answer holds identity 2 twice.\<close>

definition twins_env :: env where
  "twins_env =
     demo_env\<lparr>odoo_searchRecords :=
       remote_search [item 2 ''Eggs'', item 1 ''Milk'', item 2 ''Eggs'']\<rparr>"

text \<open>
  A delivery of \<open>n\<close> records with the identities 3, 4, ..., and a remote that answers a
  search with a delivery of 200000.
\<close>

definition bulk :: "nat \<Rightarrow> inventory_record list" where
  "bulk n = map (\<lambda>k. item (int k + 3) ''Bulk'') [0..<n]"

definition bulk_env :: env where
  "bulk_env = demo_env\<lparr>odoo_searchRecords := (\<lambda>d. Inr (bulk 200000))\<rparr>"

section \<open>Properties of the mirror\<close>

lemma keys_differ: "CACHE_KEY \<noteq> CACHE_META_KEY"
  by (simp add: CACHE_KEY_def CACHE_META_KEY_def)

lemma loadFromStorage_parsed:
  assumes "st CACHE_KEY = Some c" and "st CACHE_META_KEY = Some m"
    and "c \<noteq> []" and "m \<noteq> []"
    and "json_parse_records e c = Inr recs" and "json_parse_meta e m = Inr md"
  shows "loadFromStorage e st =
           (recs, md\<lparr>isStale := date_now e 0 - lastSyncTime md > CACHE_DURATION_MS\<rparr>)"
  using assms by (simp add: loadFromStorage_def)

text \<open>
  Claim C9. When both items of the mirror are present and deserialize, the staleness flag
  that \<open>loadFromStorage\<close> returns is true exactly when the clock minus the stored
  \<open>lastSyncTime\<close> exceeds the freshness window of 5 minutes (300000 ms): a mirror synced
  6 minutes ago is stale, one synced 4 minutes ago is not.
\<close>

theorem staleness_derivation:
  assumes "st CACHE_KEY = Some c" and "st CACHE_META_KEY = Some m"
    and "c \<noteq> []" and "m \<noteq> []"
    and "json_parse_records e c = Inr recs" and "json_parse_meta e m = Inr md"
  shows "isStale (snd (loadFromStorage e st)) = (date_now e 0 - lastSyncTime md > 5 * 60 * 1000)
       \<and> (lastSyncTime md = date_now e 0 - 6 * 60 * 1000 \<longrightarrow> isStale (snd (loadFromStorage e st)))
       \<and> (lastSyncTime md = date_now e 0 - 4 * 60 * 1000 \<longrightarrow> \<not> isStale (snd (loadFromStorage e st)))"
  using loadFromStorage_parsed [OF assms] by (simp add: CACHE_DURATION_MS_def)

theorem staleness_derivation_witness:
  "isStale (snd (loadFromStorage demo_env (demo_storage ''two'' ''six'')))
   \<and> \<not> isStale (snd (loadFromStorage demo_env (demo_storage ''two'' ''four'')))
   \<and> fst (loadFromStorage demo_env (demo_storage ''two'' ''four'')) = [item 1 ''Milk'', item 2 ''Eggs'']"
proof -
  have six: "isStale (snd (loadFromStorage demo_env (demo_storage ''two'' ''six'')))"
    using staleness_derivation [of "demo_storage ''two'' ''six''" "''two''" "''six''" demo_env
        "[item 1 ''Milk'', item 2 ''Eggs'']"
        "\<lparr>lastSyncTime = 1700000000000 - 6 * 60 * 1000, lastRecordId = 2,
          recordCount = 2, isStale = False\<rparr>"]
    by (simp add: demo_storage_def demo_env_def demo_parse_meta_def demo_parse_records_def
        keys_differ)
  have four: "\<not> isStale (snd (loadFromStorage demo_env (demo_storage ''two'' ''four'')))"
    using staleness_derivation [of "demo_storage ''two'' ''four''" "''two''" "''four''" demo_env
        "[item 1 ''Milk'', item 2 ''Eggs'']"
        "\<lparr>lastSyncTime = 1700000000000 - 4 * 60 * 1000, lastRecordId = 2,
          recordCount = 2, isStale = False\<rparr>"]
    by (simp add: demo_storage_def demo_env_def demo_parse_meta_def demo_parse_records_def
        keys_differ)
  have recs: "fst (loadFromStorage demo_env (demo_storage ''two'' ''four''))
                = [item 1 ''Milk'', item 2 ''Eggs'']"
    by (simp add: loadFromStorage_def demo_storage_def demo_env_def demo_parse_meta_def
        demo_parse_records_def keys_differ)
  from six four recs show ?thesis by simp
qed

text \<open>
  Claim C10. Whenever the serialized record array or the serialized metadata is absent
  from the mirror, or deserializing either of them throws, \<open>loadFromStorage\<close> returns the
  default: no records, \<open>lastSyncTime = 0\<close>, \<open>lastRecordId = 0\<close>, \<open>recordCount = 0\<close>,
  \<open>isStale = true\<close>; and the store that \<open>createCacheStore\<close> builds starts from it.
\<close>

theorem loadFromStorage_default:
  assumes "st CACHE_KEY = None \<or> st CACHE_META_KEY = None
         \<or> (\<exists>c err. st CACHE_KEY = Some c \<and> json_parse_records e c = Inl err)
         \<or> (\<exists>m err. st CACHE_META_KEY = Some m \<and> json_parse_meta e m = Inl err)"
  shows "loadFromStorage e st =
           ([], \<lparr>lastSyncTime = 0, lastRecordId = 0, recordCount = 0, isStale = True\<rparr>)
       \<and> store (createCacheStore e st) =
           \<lparr>records = [], loading = False, syncing = False, error = [],
            meta = \<lparr>lastSyncTime = 0, lastRecordId = 0, recordCount = 0, isStale = True\<rparr>\<rparr>"
proof -
  have "loadFromStorage e st = default_cache"
    using assms
    by (auto simp: loadFromStorage_def split: option.splits sum.splits)
  then show ?thesis
    by (simp add: createCacheStore_def default_cache_def)
qed

theorem loadFromStorage_default_witness:
  "loadFromStorage demo_env [CACHE_KEY \<mapsto> ''two''] =
     ([], \<lparr>lastSyncTime = 0, lastRecordId = 0, recordCount = 0, isStale = True\<rparr>)
   \<and> loadFromStorage demo_env (demo_storage ''two'' ''{'') =
     ([], \<lparr>lastSyncTime = 0, lastRecordId = 0, recordCount = 0, isStale = True\<rparr>)
   \<and> loadFromStorage demo_env (demo_storage ''['' ''four'') =
     ([], \<lparr>lastSyncTime = 0, lastRecordId = 0, recordCount = 0, isStale = True\<rparr>)
   \<and> records (store (createCacheStore demo_env [CACHE_META_KEY \<mapsto> ''four''])) = []"
proof -
  have a: "loadFromStorage demo_env [CACHE_KEY \<mapsto> ''two''] =
     ([], \<lparr>lastSyncTime = 0, lastRecordId = 0, recordCount = 0, isStale = True\<rparr>)"
    using loadFromStorage_default [of "[CACHE_KEY \<mapsto> ''two'']" demo_env]
    by (simp add: keys_differ [symmetric])
  have b: "loadFromStorage demo_env (demo_storage ''two'' ''{'') =
     ([], \<lparr>lastSyncTime = 0, lastRecordId = 0, recordCount = 0, isStale = True\<rparr>)"
    using loadFromStorage_default [of "demo_storage ''two'' ''{''" demo_env]
    by (simp add: demo_storage_def demo_env_def demo_parse_meta_def)
  have c: "loadFromStorage demo_env (demo_storage ''['' ''four'') =
     ([], \<lparr>lastSyncTime = 0, lastRecordId = 0, recordCount = 0, isStale = True\<rparr>)"
    using loadFromStorage_default [of "demo_storage ''['' ''four''" demo_env]
    by (simp add: demo_storage_def demo_env_def demo_parse_records_def keys_differ)
  have d: "records (store (createCacheStore demo_env [CACHE_META_KEY \<mapsto> ''four''])) = []"
    using loadFromStorage_default [of "[CACHE_META_KEY \<mapsto> ''four'']" demo_env]
    by (simp add: keys_differ)
  from a b c d show ?thesis by simp
qed

section \<open>Properties of sync\<close>

subsection \<open>What one run does\<close>

lemma store_update [simp]: "store (update f w) = f (store w)"
  and published_update [simp]: "published (update f w) = published w @ [f (store w)]"
  and localStorage_update [simp]: "localStorage (update f w) = localStorage w"
  by (simp_all add: update_def)

lemma resolvePartnerNames_id [simp]: "resolvePartnerNames recs = recs"
  by (simp add: resolvePartnerNames_def)

lemma max_record_id_within:
  assumes "length recs \<le> engine_argument_limit"
  shows "max_record_id recs = Inr (if recs = [] then 0 else Max (rec_id ` set recs))"
proof (cases recs)
  case Nil
  then show ?thesis by (simp add: max_record_id_def)
next
  case (Cons r rs)
  with assms show ?thesis
    by (simp add: max_record_id_def Max.set_eq_fold [symmetric])
qed

lemma max_record_id_beyond:
  assumes "engine_argument_limit < length recs"
  shows "max_record_id recs = Inl (Error ''Maximum call stack size exceeded'')"
  using assms by (cases recs) (simp_all add: max_record_id_def)

lemma max_record_id_Inr:
  assumes "max_record_id recs = Inr m"
  shows "length recs \<le> engine_argument_limit"
    and "m = (if recs = [] then 0 else Max (rec_id ` set recs))"
proof -
  show len: "length recs \<le> engine_argument_limit"
  proof (rule ccontr)
    assume "\<not> length recs \<le> engine_argument_limit"
    then have "engine_argument_limit < length recs" by simp
    from max_record_id_beyond [OF this] assms show False by simp
  qed
  from max_record_id_within [OF len] assms
  show "m = (if recs = [] then 0 else Max (rec_id ` set recs))" by simp
qed

lemma max_record_id_sort:
  assumes "length xs \<le> engine_argument_limit"
  shows "max_record_id (sort_key rec_id xs)
           = Inr (if xs = [] then 0 else Max (rec_id ` set xs))"
proof -
  have "length (sort_key rec_id xs) \<le> engine_argument_limit"
    using assms by simp
  from max_record_id_within [OF this]
  have "max_record_id (sort_key rec_id xs)
          = Inr (if sort_key rec_id xs = [] then 0
                 else Max (rec_id ` set (sort_key rec_id xs)))" .
  moreover have "(sort_key rec_id xs = []) = (xs = [])"
    by (metis length_0_conv length_sort)
  ultimately show ?thesis by simp
qed

lemma sync_merge_flags [simp]:
  "sync_merge force (s\<lparr>syncing := a, error := b\<rparr>) fetched = sync_merge force s fetched"
  by (simp add: sync_merge_def)

lemma sync_merge_incremental:
  assumes "lastRecordId (meta s) \<noteq> 0"
  shows "sync_merge False s fetched =
           sort_key rec_id
             (records s @ filter (\<lambda>r. rec_id r \<notin> rec_id ` set (records s)) fetched)"
  using assms by (simp add: sync_merge_def Let_def)

lemma sync_store_success:
  assumes "sync_fetch e f (lastRecordId (meta (store w))) = Inr (force, fetched)"
    and "max_record_id (sync_merge force (store w) fetched) = Inr m"
  shows "store (sync e f w) =
           (store w)\<lparr>records := sync_merge force (store w) fetched,
                     meta := \<lparr>lastSyncTime = date_now e 0,
                              lastRecordId = m,
                              recordCount = length (sync_merge force (store w) fetched),
                              isStale = False\<rparr>,
                     syncing := False, error := []\<rparr>"
  using assms by (simp add: sync_def Let_def)

lemma sync_failure:
  assumes "sync_fetch e f (lastRecordId (meta (store w))) = Inl err"
  shows "sync e f w =
           w\<lparr>store := (store w)\<lparr>syncing := False,
                 error := (if message err \<noteq> [] then message err else ''Failed to sync data'')\<rparr>,
             published := published w @
               [(store w)\<lparr>syncing := True, error := []\<rparr>,
                (store w)\<lparr>syncing := False,
                 error := (if message err \<noteq> [] then message err else ''Failed to sync data'')\<rparr>]\<rparr>"
  using assms by (simp add: sync_def sync_failed_def Let_def update_def)

lemma sync_overflow:
  assumes "sync_fetch e f (lastRecordId (meta (store w))) = Inr (force, fetched)"
    and "max_record_id (sync_merge force (store w) fetched) = Inl err"
  shows "sync e f w =
           w\<lparr>store := (store w)\<lparr>syncing := False,
                 error := (if message err \<noteq> [] then message err else ''Failed to sync data'')\<rparr>,
             published := published w @
               [(store w)\<lparr>syncing := True, error := []\<rparr>,
                (store w)\<lparr>syncing := False,
                 error := (if message err \<noteq> [] then message err else ''Failed to sync data'')\<rparr>]\<rparr>"
  using assms by (simp add: sync_def sync_failed_def Let_def update_def)

lemma sync_fetch_fallback:
  assumes "0 < wm" and "odoo_searchRecords e [(''id'', ''>'', wm)] = Inl err"
  shows "sync_fetch e False wm = sync_fetch e True wm"
  using assms by (simp add: sync_fetch_def)

lemma sync_fetch_forced:
  "sync_fetch e True wm = (case odoo_searchRecords e [] of Inl err \<Rightarrow> Inl err | Inr rs \<Rightarrow> Inr (True, rs))"
  by (simp add: sync_fetch_def)

lemma sync_fetch_incremental:
  assumes "0 < wm" and "odoo_searchRecords e [(''id'', ''>'', wm)] = Inr rs"
  shows "sync_fetch e False wm = Inr (False, rs)"
  using assms by (simp add: sync_fetch_def)

lemma sync_syncing_cleared: "syncing (store (sync e f w)) = False"
  by (simp add: sync_def sync_failed_def Let_def split: sum.splits prod.splits)

lemma sorted_sync_merge: "sorted (map rec_id (sync_merge force s fetched))"
  by (simp add: sync_merge_def)

lemma sync_fetch_fails_iff:
  "sync_fetch e force wm = Inl err \<longleftrightarrow>
     odoo_searchRecords e [] = Inl err \<and>
     (force \<or> wm = 0 \<or> (0 < wm \<and> (\<exists>err'. odoo_searchRecords e [(''id'', ''>'', wm)] = Inl err')))"
  by (auto simp: sync_fetch_def split: sum.splits if_splits)

lemma sync_fetch_storage_accepts [simp]:
  "sync_fetch (e\<lparr>storage_accepts := q\<rparr>) force wm = sync_fetch e force wm"
  by (simp add: sync_fetch_def split: sum.splits)

lemma sync_success_shape:
  assumes "error (store (sync e f w)) = []"
  obtains force fetched m where
    "sync_fetch e f (lastRecordId (meta (store w))) = Inr (force, fetched)"
    "max_record_id (sync_merge force (store w) fetched) = Inr m"
proof (cases "sync_fetch e f (lastRecordId (meta (store w)))")
  case (Inl err)
  from sync_failure [OF this] assms show ?thesis by (simp split: if_splits)
next
  case (Inr p)
  obtain force fetched where p: "p = (force, fetched)" by (cases p)
  show ?thesis
  proof (cases "max_record_id (sync_merge force (store w) fetched)")
    case (Inl err)
    from sync_overflow [OF Inr [unfolded p] this] assms show ?thesis
      by (simp split: if_splits)
  next
    case inr: (Inr m)
    from that [OF Inr [unfolded p] inr] show ?thesis .
  qed
qed

lemma positive_max_record_id:
  assumes "\<forall>r\<in>set recs. 0 < rec_id r" and "recs \<noteq> []" and "max_record_id recs = Inr m"
  shows "0 < m"
proof -
  have "Max (rec_id ` set recs) \<in> rec_id ` set recs"
    using assms(2) by (intro Max_in) simp_all
  then obtain r where "r \<in> set recs" and "rec_id r = Max (rec_id ` set recs)"
    by auto
  with assms(1) have "0 < Max (rec_id ` set recs)" by auto
  with assms(2) max_record_id_Inr(2) [OF assms(3)] show ?thesis by simp
qed

lemma sync_fetch_answer:
  assumes "sync_fetch e force wm = Inr (f, fetched)"
  shows "fetched = [] \<or> (\<exists>d. odoo_searchRecords e d = Inr fetched)"
  using assms by (auto simp: sync_fetch_def split: if_splits sum.splits)

lemma distinct_ids_sort_key:
  "distinct (map rec_id (sort_key rec_id xs)) = distinct (map rec_id xs)"
proof -
  have "mset (map rec_id (sort_key rec_id xs)) = mset (map rec_id xs)"
    by simp
  then show ?thesis by (rule mset_eq_imp_distinct_iff)
qed

lemma distinct_ids_sync_merge:
  assumes "distinct (map rec_id fetched)" and "distinct (map rec_id (records s))"
  shows "distinct (map rec_id (sync_merge force s fetched))"
proof -
  have "distinct (map rec_id (filter (\<lambda>r. rec_id r \<notin> rec_id ` set (records s)) fetched))"
    using assms(1) by (rule distinct_map_filter)
  with assms show ?thesis
    by (auto simp: sync_merge_def Let_def distinct_ids_sort_key) (metis image_eqI)
qed

lemma published_sync:
  "published (sync e f w) =
     published w @ [(store w)\<lparr>syncing := True, error := []\<rparr>, store (sync e f w)]"
  by (simp add: sync_def sync_failed_def Let_def split: sum.splits prod.splits)

lemma adjacent_strict_iff_distinct:
  fixes xs :: "int list"
  assumes "sorted xs"
  shows "(\<forall>i. Suc i < length xs \<longrightarrow> xs ! i < xs ! Suc i) \<longleftrightarrow> distinct xs"
proof
  assume "\<forall>i. Suc i < length xs \<longrightarrow> xs ! i < xs ! Suc i"
  then have "sorted_wrt (<) xs"
    by (simp add: sorted_wrt_iff_nth_Suc_transp)
  then show "distinct xs" by (simp add: strict_sorted_iff)
next
  assume "distinct xs"
  with assms have "sorted_wrt (<) xs" by (simp add: strict_sorted_iff)
  then show "\<forall>i. Suc i < length xs \<longrightarrow> xs ! i < xs ! Suc i"
    by (simp add: sorted_wrt_iff_nth_Suc_transp)
qed

lemma adjacent_ascending:
  fixes xs :: "int list"
  assumes "sorted xs"
  shows "\<forall>i. Suc i < length xs \<longrightarrow> xs ! i \<le> xs ! Suc i"
  using assms by (simp add: sorted_wrt_iff_nth_Suc_transp)

lemmas demo_defs = demo_env_def demo_world_def item_def remote_search_def
  remote_search_unfiltered_only_def offline_def

lemma small_within_limit [simp]:
  "Suc (Suc (Suc (Suc (Suc 0)))) \<le> engine_argument_limit" "Suc 0 \<le> engine_argument_limit"
  "Suc (Suc (Suc (Suc 0))) \<le> engine_argument_limit" "Suc (Suc (Suc 0)) \<le> engine_argument_limit"
  "Suc (Suc 0) \<le> engine_argument_limit"
  by (simp_all add: engine_argument_limit_def)

lemma growing_first_run:
  "store (sync growing_env False pantry) =
     \<lparr>records = [item 1 ''Milk'', item 2 ''Eggs'', item 3 ''Jam'', item 7 ''Tofu'', item 9 ''Kiwi''],
      loading = False, syncing = False, error = [],
      meta = \<lparr>lastSyncTime = 1700000000000, lastRecordId = 9, recordCount = 5,
               isStale = False\<rparr>\<rparr>"
proof -
  have fetch: "sync_fetch growing_env False (lastRecordId (meta (store pantry)))
          = Inr (False, [item 9 ''Kiwi'', item 3 ''Jam'', item 7 ''Tofu''])"
    by (simp add: sync_fetch_def pantry_def growing_env_def demo_defs)
  have merged: "sync_merge False (store pantry) [item 9 ''Kiwi'', item 3 ''Jam'', item 7 ''Tofu'']
          = [item 1 ''Milk'', item 2 ''Eggs'', item 3 ''Jam'', item 7 ''Tofu'', item 9 ''Kiwi'']"
    by (simp add: sync_merge_def pantry_def demo_world_def item_def)
  have top: "max_record_id
          [item 1 ''Milk'', item 2 ''Eggs'', item 3 ''Jam'', item 7 ''Tofu'', item 9 ''Kiwi'']
          = Inr 9"
    by (simp add: max_record_id_def item_def engine_argument_limit_def)
  from sync_store_success [OF fetch top [folded merged], unfolded merged] show ?thesis
    by (simp add: pantry_def demo_world_def growing_env_def demo_env_def)
qed

lemma length_bulk: "length (bulk n) = n"
  by (simp add: bulk_def)

lemma bulk_ids: "r \<in> set (bulk n) \<Longrightarrow> 3 \<le> rec_id r"
  by (auto simp: bulk_def item_def)

subsection \<open>The fallback from a failed incremental fetch\<close>

text \<open>
  Claim C1. When \<open>sync(false)\<close> issues the incremental fetch (the watermark is
  positive) and that fetch throws, the same run goes on to the unfiltered fetch and does
  exactly what \<open>sync(true)\<close> does from the same state against the same remote: the two
  worlds are equal, so the published record sets are. \<open>syncing\<close> is false at the end.
  What both publish: the unfiltered answer sorted by identity, with no error, when it is
  short enough for \<^verbatim>\<open>Math.max(...ids)\<close>; the records as they were, with an error,
  when it is longer or when the unfiltered fetch throws too.
\<close>

theorem sync_incremental_failure_falls_back:
  assumes "0 < lastRecordId (meta (store w))"
    and "odoo_searchRecords e [(''id'', ''>'', lastRecordId (meta (store w)))] = Inl err"
  shows "sync e False w = sync e True w
       \<and> syncing (store (sync e False w)) = False
       \<and> (case odoo_searchRecords e [] of
            Inr rs \<Rightarrow>
              if length rs \<le> engine_argument_limit
              then records (store (sync e False w)) = sort_key rec_id rs
                 \<and> error (store (sync e False w)) = []
              else records (store (sync e False w)) = records (store w)
                 \<and> error (store (sync e False w)) \<noteq> []
          | Inl err' \<Rightarrow>
              records (store (sync e False w)) = records (store w)
            \<and> error (store (sync e False w)) \<noteq> [])"
proof -
  have eq: "sync e False w = sync e True w"
    using sync_fetch_fallback [OF assms] by (simp add: sync_def Let_def)
  have forced: "case odoo_searchRecords e [] of
            Inr rs \<Rightarrow>
              if length rs \<le> engine_argument_limit
              then records (store (sync e True w)) = sort_key rec_id rs
                 \<and> error (store (sync e True w)) = []
              else records (store (sync e True w)) = records (store w)
                 \<and> error (store (sync e True w)) \<noteq> []
          | Inl err' \<Rightarrow>
              records (store (sync e True w)) = records (store w)
            \<and> error (store (sync e True w)) \<noteq> []"
  proof (cases "odoo_searchRecords e []")
    case (Inl err')
    then have "sync_fetch e True (lastRecordId (meta (store w))) = Inl err'"
      by (simp add: sync_fetch_forced)
    from sync_failure [OF this] Inl show ?thesis by simp
  next
    case (Inr rs)
    then have fetch: "sync_fetch e True (lastRecordId (meta (store w))) = Inr (True, rs)"
      by (simp add: sync_fetch_forced)
    have merged: "sync_merge True (store w) rs = sort_key rec_id rs"
      by (simp add: sync_merge_def)
    show ?thesis
    proof (cases "length rs \<le> engine_argument_limit")
      case True
      then have "max_record_id (sync_merge True (store w) rs)
                   = Inr (if rs = [] then 0 else Max (rec_id ` set rs))"
        unfolding merged by (rule max_record_id_sort)
      from sync_store_success [OF fetch this] Inr True show ?thesis
        by (simp add: merged)
    next
      case False
      then have "max_record_id (sync_merge True (store w) rs)
                   = Inl (Error ''Maximum call stack size exceeded'')"
        unfolding merged by (intro max_record_id_beyond) simp
      from sync_overflow [OF fetch this] Inr False show ?thesis by simp
    qed
  qed
  show ?thesis unfolding eq using forced sync_syncing_cleared [of e True w] by simp
qed

text \<open>
  A cache of record 1 with watermark 1: the filtered query is rejected, the unfiltered one
  returns 2, 1, 3.
\<close>

theorem sync_incremental_failure_falls_back_witness:
  "odoo_searchRecords fallback_env [(''id'', ''>'', 1)] = Inl (Error ''Invalid domain'')
   \<and> sync fallback_env False (demo_world [item 1 ''Milk''] 1)
       = sync fallback_env True (demo_world [item 1 ''Milk''] 1)
   \<and> syncing (store (sync fallback_env False (demo_world [item 1 ''Milk''] 1))) = False
   \<and> records (store (sync fallback_env False (demo_world [item 1 ''Milk''] 1)))
       = [item 1 ''Milk'', item 2 ''Eggs'', item 3 ''Jam'']"
proof -
  let ?w = "demo_world [item 1 ''Milk''] 1"
  have wm: "lastRecordId (meta (store ?w)) = 1"
    by (simp add: demo_world_def)
  have incr: "odoo_searchRecords fallback_env [(''id'', ''>'', 1)] = Inl (Error ''Invalid domain'')"
    by (simp add: fallback_env_def demo_env_def remote_search_unfiltered_only_def)
  have full: "odoo_searchRecords fallback_env []
                = Inr [item 2 ''Eggs'', item 1 ''Milk'', item 3 ''Jam'']"
    by (simp add: fallback_env_def demo_env_def remote_search_unfiltered_only_def)
  have "0 < lastRecordId (meta (store ?w))"
    and "odoo_searchRecords fallback_env [(''id'', ''>'', lastRecordId (meta (store ?w)))]
           = Inl (Error ''Invalid domain'')"
    using incr by (simp_all add: wm)
  from sync_incremental_failure_falls_back [OF this] incr show ?thesis
    by (auto simp: full item_def)
qed

subsection \<open>The incremental merge\<close>

text \<open>
  In incremental mode (flag false, positive watermark, the filtered fetch answers) with a
  merged set short enough for \<^verbatim>\<open>Math.max(...ids)\<close>, the published set is the
  existing set followed by the fetched records whose identity no existing record has,
  sorted ascending by identity; the new metadata has \<open>lastRecordId\<close> the greatest
  identity of that merged set (0 when it is empty), \<open>recordCount\<close> its size and
  \<open>isStale = false\<close>.
\<close>

lemma sync_incremental_merge_within_limit:
  assumes "0 < lastRecordId (meta (store w))"
    and "odoo_searchRecords e [(''id'', ''>'', lastRecordId (meta (store w)))] = Inr fetched"
    and "length (records (store w)
           @ filter (\<lambda>r. rec_id r \<notin> rec_id ` set (records (store w))) fetched)
         \<le> engine_argument_limit"
  shows "(let existing = records (store w);
              merged = existing @ filter (\<lambda>r. rec_id r \<notin> rec_id ` set existing) fetched;
              after = store (sync e False w)
          in records after = sort_key rec_id merged
           \<and> sorted (map rec_id (records after))
           \<and> mset (records after) = mset merged
           \<and> lastRecordId (meta after) = (if merged = [] then 0 else Max (rec_id ` set merged))
           \<and> recordCount (meta after) = length merged
           \<and> isStale (meta after) = False
           \<and> lastSyncTime (meta after) = date_now e 0
           \<and> syncing after = False \<and> error after = [])"
proof -
  let ?merged = "records (store w) @ filter (\<lambda>r. rec_id r \<notin> rec_id ` set (records (store w))) fetched"
  have fetch: "sync_fetch e False (lastRecordId (meta (store w))) = Inr (False, fetched)"
    using assms(1,2) by (rule sync_fetch_incremental)
  have merge: "sync_merge False (store w) fetched = sort_key rec_id ?merged"
    using assms(1) by (simp add: sync_merge_incremental)
  have mx: "max_record_id (sync_merge False (store w) fetched)
              = Inr (if ?merged = [] then 0 else Max (rec_id ` set ?merged))"
    unfolding merge using assms(3) by (rule max_record_id_sort)
  show ?thesis
    unfolding Let_def sync_store_success [OF fetch mx] merge by simp
qed

text \<open>
  Merging fetched identities 9, 3, 7 into the existing 1, 2 publishes 1, 2, 3, 7, 9 with
  \<open>lastRecordId = 9\<close>.
\<close>

lemma sync_incremental_merge_example:
  "records (store (sync growing_env False pantry))
     = [item 1 ''Milk'', item 2 ''Eggs'', item 3 ''Jam'', item 7 ''Tofu'', item 9 ''Kiwi'']
   \<and> lastRecordId (meta (store (sync growing_env False pantry))) = 9
   \<and> recordCount (meta (store (sync growing_env False pantry))) = 5"
  using sync_incremental_merge_within_limit [of pantry growing_env
      "[item 9 ''Kiwi'', item 3 ''Jam'', item 7 ''Tofu'']"]
  by (simp add: growing_env_def pantry_def demo_defs Let_def)

lemma bulk_overflows:
  "sync bulk_env False pantry =
     pantry\<lparr>store := (store pantry)\<lparr>error := ''Maximum call stack size exceeded''\<rparr>,
            published :=
              [(store pantry)\<lparr>syncing := True\<rparr>,
               (store pantry)\<lparr>error := ''Maximum call stack size exceeded''\<rparr>]\<rparr>"
proof -
  have wm: "lastRecordId (meta (store pantry)) = 2"
    by (simp add: pantry_def demo_world_def)
  have "odoo_searchRecords bulk_env [(''id'', ''>'', 2)] = Inr (bulk 200000)"
    by (simp add: bulk_env_def demo_env_def)
  then have fetch: "sync_fetch bulk_env False (lastRecordId (meta (store pantry)))
                      = Inr (False, bulk 200000)"
    unfolding wm by (intro sync_fetch_incremental) simp_all
  have new: "filter (\<lambda>r. rec_id r \<notin> rec_id ` set (records (store pantry))) (bulk 200000)
               = bulk 200000"
    by (rule filter_True) (auto simp: pantry_def demo_world_def item_def dest: bulk_ids)
  have "sync_merge False (store pantry) (bulk 200000)
          = sort_key rec_id (records (store pantry) @ bulk 200000)"
    using sync_merge_incremental [of "store pantry" "bulk 200000"] wm new by simp
  then have "length (sync_merge False (store pantry) (bulk 200000)) = 200002"
    by (simp add: length_bulk pantry_def demo_world_def)
  then have "engine_argument_limit < length (sync_merge False (store pantry) (bulk 200000))"
    by (simp add: engine_argument_limit_def)
  from sync_overflow [OF fetch max_record_id_beyond [OF this]] show ?thesis
    by (simp add: pantry_def demo_world_def)
qed

text \<open>
  Claim C2. In incremental mode the published record set is to be the existing set plus
  the fetched records with a new identity, sorted, and \<open>lastRecordId\<close> its greatest
  identity. The code does this only while the merged set fits in one call of
  \<^verbatim>\<open>Math.max(...ids)\<close>. The pantry (identities 1, 2, watermark 2) receives a
  delivery of 200000 records with the new identities 3 to 200002: the spread throws, the
  \<^verbatim>\<open>catch\<close> of \<open>sync\<close> publishes the error, and neither the record set nor the
  watermark moves.
\<close>

theorem sync_incremental_merge_overflow:
  "odoo_searchRecords bulk_env [(''id'', ''>'', 2)] = Inr (bulk 200000)
   \<and> length (bulk 200000) = 200000
   \<and> records (store (sync bulk_env False pantry)) = [item 1 ''Milk'', item 2 ''Eggs'']
   \<and> lastRecordId (meta (store (sync bulk_env False pantry))) = 2
   \<and> recordCount (meta (store (sync bulk_env False pantry))) = 2
   \<and> syncing (store (sync bulk_env False pantry)) = False
   \<and> error (store (sync bulk_env False pantry)) = ''Maximum call stack size exceeded''"
proof -
  have answer: "odoo_searchRecords bulk_env [(''id'', ''>'', 2)] = Inr (bulk 200000)"
    by (simp add: bulk_env_def demo_env_def)
  have after: "store (sync bulk_env False pantry)
                 = (store pantry)\<lparr>error := ''Maximum call stack size exceeded''\<rparr>"
    by (simp add: bulk_overflows)
  show ?thesis
    unfolding after using answer by (simp add: length_bulk pantry_def demo_world_def)
qed

subsection \<open>Failures\<close>

text \<open>
  A failed write to the mirror is not a failed sync: \<open>saveToStorage\<close> catches the
  exception of \<open>setItem\<close>. With a mirror that refuses every write and a remote that
  answers, the first sync of an empty cache leaves the mirror as it was, publishes the
  fetched record with an empty \<open>error\<close>, and replaces records and metadata.
\<close>

theorem sync_persistence_failure_counterexample:
  "setItem quota_env (localStorage (demo_world [] 0)) CACHE_KEY
       (json_stringify_records quota_env [item 1 ''Milk'']) = Inl (Error ''QuotaExceededError'')
   \<and> localStorage (sync quota_env False (demo_world [] 0)) = localStorage (demo_world [] 0)
   \<and> error (store (sync quota_env False (demo_world [] 0))) = []
   \<and> records (store (sync quota_env False (demo_world [] 0))) = [item 1 ''Milk'']
   \<and> records (store (sync quota_env False (demo_world [] 0))) \<noteq> records (store (demo_world [] 0))
   \<and> meta (store (sync quota_env False (demo_world [] 0))) \<noteq> meta (store (demo_world [] 0))"
  by (simp add: quota_env_def demo_defs sync_def sync_fetch_def sync_merge_def
      saveToStorage_def setItem_def max_record_id_def engine_argument_limit_def Let_def)


text \<open>
  Claim C3, as amended. When the unfiltered fetch of a run throws (the run is forced, or
  the watermark is 0, or the incremental fetch has thrown before it), the published state
  is the state before the run with \<open>syncing = false\<close> and \<open>error\<close> the message of the
  exception (\<open>Failed to sync data\<close> when the message is empty): records and metadata are
  unchanged, and so is the mirror. Whether the mirror accepts the writes of
  \<open>saveToStorage\<close> has no effect on the published state.
\<close>

theorem sync_fetch_failure_keeps_cache:
  "(odoo_searchRecords e [] = Inl err
      \<and> (force \<or> lastRecordId (meta (store w)) = 0
         \<or> (0 < lastRecordId (meta (store w))
            \<and> (\<exists>err'. odoo_searchRecords e [(''id'', ''>'', lastRecordId (meta (store w)))] = Inl err')))
    \<longrightarrow> store (sync e force w) =
           (store w)\<lparr>syncing := False,
                     error := (if message err = [] then ''Failed to sync data'' else message err)\<rparr>
       \<and> localStorage (sync e force w) = localStorage w)
   \<and> store (sync (e\<lparr>storage_accepts := q\<rparr>) force w) = store (sync e force w)"
proof (intro conjI impI)
  assume "odoo_searchRecords e [] = Inl err
      \<and> (force \<or> lastRecordId (meta (store w)) = 0
         \<or> (0 < lastRecordId (meta (store w))
            \<and> (\<exists>err'. odoo_searchRecords e [(''id'', ''>'', lastRecordId (meta (store w)))] = Inl err')))"
  then have fails: "sync_fetch e force (lastRecordId (meta (store w))) = Inl err"
    by (simp add: sync_fetch_fails_iff)
  show "store (sync e force w) =
           (store w)\<lparr>syncing := False,
                     error := (if message err = [] then ''Failed to sync data'' else message err)\<rparr>"
    by (simp add: sync_failure [OF fails])
  show "localStorage (sync e force w) = localStorage w"
    by (simp add: sync_failure [OF fails])
next
  show "store (sync (e\<lparr>storage_accepts := q\<rparr>) force w) = store (sync e force w)"
  proof (cases "sync_fetch e force (lastRecordId (meta (store w)))")
    case (Inl err')
    then have "sync_fetch (e\<lparr>storage_accepts := q\<rparr>) force (lastRecordId (meta (store w))) = Inl err'"
      by simp
    from sync_failure [OF this] sync_failure [OF Inl] show ?thesis by simp
  next
    case (Inr p)
    obtain f fetched where p: "p = (f, fetched)" by (cases p)
    from Inr p have fetch: "sync_fetch e force (lastRecordId (meta (store w))) = Inr (f, fetched)"
      and fetch': "sync_fetch (e\<lparr>storage_accepts := q\<rparr>) force (lastRecordId (meta (store w)))
                       = Inr (f, fetched)"
      by simp_all
    show ?thesis
    proof (cases "max_record_id (sync_merge f (store w) fetched)")
      case (Inl err')
      from sync_overflow [OF fetch' Inl] sync_overflow [OF fetch Inl] show ?thesis by simp
    next
      case (Inr m)
      from sync_store_success [OF fetch' Inr] sync_store_success [OF fetch Inr]
      show ?thesis by simp
    qed
  qed
qed

text \<open>
  With the remote unreachable both fetches of the pantry fail.
\<close>

theorem sync_fetch_failure_keeps_cache_witness:
  "store (sync demo_env False pantry) = (store pantry)\<lparr>error := ''Failed to fetch''\<rparr>
   \<and> records (store (sync demo_env False pantry)) = [item 1 ''Milk'', item 2 ''Eggs'']
   \<and> localStorage (sync demo_env False pantry) = Map.empty"
  using sync_fetch_failure_keeps_cache [of demo_env offline False pantry]
  by (simp add: pantry_def demo_defs)

subsection \<open>Repeating a sync\<close>

text \<open>
  Claim C7. After a first \<open>sync(false)\<close> that succeeded, a second \<open>sync(false)\<close> to
  which the remote returns no record with an identity above the watermark publishes the
  same record set and the same \<open>lastRecordId\<close>; of the metadata only \<open>lastSyncTime\<close>
  changes. Identities are remote-assigned and positive, so a watermark of 0 means an
  empty cache, and then "nothing above the watermark" is an empty remote.
\<close>

theorem sync_twice_idempotent:
  assumes first: "w1 = sync e1 False w0" "error (store w1) = []"
    and positive: "\<forall>r\<in>set (records (store w1)). 0 < rec_id r"
    and nothing_new:
      "0 < lastRecordId (meta (store w1)) \<longrightarrow>
         odoo_searchRecords e2 [(''id'', ''>'', lastRecordId (meta (store w1)))] = Inr []"
      "lastRecordId (meta (store w1)) = 0 \<longrightarrow> odoo_searchRecords e2 [] = Inr []"
  shows "records (store (sync e2 False w1)) = records (store w1)
       \<and> lastRecordId (meta (store (sync e2 False w1))) = lastRecordId (meta (store w1))
       \<and> meta (store (sync e2 False w1)) = (meta (store w1))\<lparr>lastSyncTime := date_now e2 0\<rparr>
       \<and> error (store (sync e2 False w1)) = []"
proof -
  from first obtain force fetched m where
    f1: "sync_fetch e1 False (lastRecordId (meta (store w0))) = Inr (force, fetched)"
    and top1: "max_record_id (sync_merge force (store w0) fetched) = Inr m"
    by (auto elim: sync_success_shape)
  let ?rs = "records (store w1)"
  have s1: "?rs = sync_merge force (store w0) fetched"
    and m1: "meta (store w1) = \<lparr>lastSyncTime = date_now e1 0, lastRecordId = m,
                               recordCount = length ?rs, isStale = False\<rparr>"
    using sync_store_success [OF f1 top1] first(1) by simp_all
  have top: "max_record_id ?rs = Inr m"
    using top1 s1 by simp
  have sorted1: "sorted (map rec_id ?rs)"
    unfolding s1 by (rule sorted_sync_merge)
  have wm: "lastRecordId (meta (store w1)) = m"
    using m1 by simp
  show ?thesis
  proof (cases "?rs = []")
    case True
    with max_record_id_Inr(2) [OF top] have z: "lastRecordId (meta (store w1)) = 0"
      using wm by simp
    with nothing_new(2) have fetch: "sync_fetch e2 False (lastRecordId (meta (store w1))) = Inr (False, [])"
      by (simp add: sync_fetch_def)
    have "sync_merge False (store w1) [] = []"
      using True by (simp add: sync_merge_def)
    with top True have "max_record_id (sync_merge False (store w1) []) = Inr m"
      by simp
    from sync_store_success [OF fetch this] True z m1 wm show ?thesis
      by (simp add: sync_merge_def)
  next
    case False
    with positive top have pos: "0 < lastRecordId (meta (store w1))"
      unfolding wm by (intro positive_max_record_id)
    with nothing_new(1) have fetch: "sync_fetch e2 False (lastRecordId (meta (store w1))) = Inr (False, [])"
      by (simp add: sync_fetch_def)
    have same: "sync_merge False (store w1) [] = ?rs"
      using pos sorted1 by (simp add: sync_merge_def sort_key_id_if_sorted)
    with top have "max_record_id (sync_merge False (store w1) []) = Inr m"
      by simp
    from sync_store_success [OF fetch this] same m1 show ?thesis by simp
  qed
qed

text \<open>
  The pantry synced against the growing remote, and again three minutes later.
\<close>

theorem sync_twice_idempotent_witness:
  "records (store (sync later_env False (sync growing_env False pantry)))
     = [item 1 ''Milk'', item 2 ''Eggs'', item 3 ''Jam'', item 7 ''Tofu'', item 9 ''Kiwi'']
   \<and> lastRecordId (meta (store (sync later_env False (sync growing_env False pantry)))) = 9
   \<and> lastSyncTime (meta (store (sync growing_env False pantry))) = 1700000000000
   \<and> lastSyncTime (meta (store (sync later_env False (sync growing_env False pantry))))
       = 1700000180000"
proof -
  let ?w1 = "sync growing_env False pantry"
  have ok: "error (store ?w1) = []"
    by (simp add: growing_first_run)
  have pos: "\<forall>r\<in>set (records (store ?w1)). 0 < rec_id r"
    by (simp add: growing_first_run item_def)
  have wm: "lastRecordId (meta (store ?w1)) = 9"
    by (simp add: growing_first_run)
  have none: "0 < lastRecordId (meta (store ?w1)) \<longrightarrow>
      odoo_searchRecords later_env [(''id'', ''>'', lastRecordId (meta (store ?w1)))] = Inr []"
    unfolding wm by (simp add: later_env_def growing_env_def demo_env_def remote_search_def item_def)
  have zero: "lastRecordId (meta (store ?w1)) = 0 \<longrightarrow> odoo_searchRecords later_env [] = Inr []"
    by (simp add: growing_first_run)
  from sync_twice_idempotent [OF refl ok pos none zero] show ?thesis
    by (simp add: growing_first_run later_env_def)
qed

subsection \<open>Ordering\<close>

text \<open>
  \<open>sync\<close> sorts, and it removes from the fetched records those whose identity the cache
  already has; it does nothing else about an identity that occurs twice. When the remote
  answers the first sync of an empty cache with identity 2 twice, both copies are
  published, with no error, and the last two positions hold the same identity.
\<close>

theorem sync_duplicate_identity_counterexample:
  "error (store (sync twins_env False (demo_world [] 0))) = []
   \<and> map rec_id (records (store (sync twins_env False (demo_world [] 0)))) = [1, 2, 2]
   \<and> \<not> rec_id (records (store (sync twins_env False (demo_world [] 0))) ! 1)
         < rec_id (records (store (sync twins_env False (demo_world [] 0))) ! 2)"
proof -
  have fetch: "sync_fetch twins_env False (lastRecordId (meta (store (demo_world [] 0))))
                 = Inr (False, [item 2 ''Eggs'', item 1 ''Milk'', item 2 ''Eggs''])"
    by (simp add: sync_fetch_def twins_env_def demo_defs)
  have merged: "sync_merge False (store (demo_world [] 0))
                  [item 2 ''Eggs'', item 1 ''Milk'', item 2 ''Eggs'']
                = [item 1 ''Milk'', item 2 ''Eggs'', item 2 ''Eggs'']"
    by (simp add: sync_merge_def demo_world_def item_def)
  have top: "max_record_id [item 1 ''Milk'', item 2 ''Eggs'', item 2 ''Eggs''] = Inr 2"
    by (simp add: max_record_id_def item_def engine_argument_limit_def)
  from sync_store_success [OF fetch top [folded merged], unfolded merged] show ?thesis
    by (simp add: item_def)
qed

text \<open>
  Claim C8, as amended. The record set that a successful sync publishes is ascending by
  identity: \<open>records[i].id \<le> records[i+1].id\<close> at all adjacent positions. It is strictly
  ascending exactly when no identity occurs twice in it, and none does when identities are
  unique in what the cache held before the run and in every answer of the remote.
\<close>

theorem sync_ascending:
  assumes "error (store (sync e force w)) = []"
  shows "(let rs = records (store (sync e force w)) in
            sorted (map rec_id rs)
          \<and> (\<forall>i. Suc i < length rs \<longrightarrow> rec_id (rs ! i) \<le> rec_id (rs ! Suc i))
          \<and> ((\<forall>i. Suc i < length rs \<longrightarrow> rec_id (rs ! i) < rec_id (rs ! Suc i))
               \<longleftrightarrow> distinct (map rec_id rs))
          \<and> ((\<forall>d answer. odoo_searchRecords e d = Inr answer \<longrightarrow> distinct (map rec_id answer))
               \<and> distinct (map rec_id (records (store w)))
               \<longrightarrow> distinct (map rec_id rs)))"
proof -
  from assms obtain f fetched m where
    fetch: "sync_fetch e force (lastRecordId (meta (store w))) = Inr (f, fetched)"
    and top: "max_record_id (sync_merge f (store w) fetched) = Inr m"
    by (auto elim: sync_success_shape)
  let ?rs = "records (store (sync e force w))"
  have rs: "?rs = sync_merge f (store w) fetched"
    using sync_store_success [OF fetch top] by simp
  have srt: "sorted (map rec_id ?rs)"
    unfolding rs by (rule sorted_sync_merge)
  have asc: "\<forall>i. Suc i < length ?rs \<longrightarrow> rec_id (?rs ! i) \<le> rec_id (?rs ! Suc i)"
    using adjacent_ascending [OF srt] by simp
  have strict: "(\<forall>i. Suc i < length ?rs \<longrightarrow> rec_id (?rs ! i) < rec_id (?rs ! Suc i))
                  \<longleftrightarrow> distinct (map rec_id ?rs)"
    using adjacent_strict_iff_distinct [OF srt] by simp
  have uniq: "distinct (map rec_id ?rs)"
    if remote: "\<forall>d answer. odoo_searchRecords e d = Inr answer \<longrightarrow> distinct (map rec_id answer)"
      and cached: "distinct (map rec_id (records (store w)))"
  proof -
    have "distinct (map rec_id fetched)"
      using sync_fetch_answer [OF fetch] remote by auto
    then show ?thesis
      unfolding rs using cached by (rule distinct_ids_sync_merge)
  qed
  from srt asc strict uniq show ?thesis
    unfolding Let_def by blast
qed

text \<open>The pantry synced against the growing remote: 1, 2, 3, 7, 9.\<close>

theorem sync_ascending_witness:
  "error (store (sync growing_env False pantry)) = []
   \<and> map rec_id (records (store (sync growing_env False pantry))) = [1, 2, 3, 7, 9]
   \<and> sorted (map rec_id (records (store (sync growing_env False pantry))))
   \<and> distinct (map rec_id (records (store (sync growing_env False pantry))))"
proof -
  have ok: "error (store (sync growing_env False pantry)) = []"
    by (simp add: growing_first_run)
  have ids: "map rec_id (records (store (sync growing_env False pantry))) = [1, 2, 3, 7, 9]"
    by (simp add: growing_first_run item_def)
  have remote: "\<forall>d answer. odoo_searchRecords growing_env d = Inr answer
                  \<longrightarrow> distinct (map rec_id answer)"
    by (auto simp: growing_env_def demo_env_def remote_search_def item_def
        intro!: distinct_map_filter)
  have cached: "distinct (map rec_id (records (store pantry)))"
    by (simp add: pantry_def demo_world_def item_def)
  from sync_ascending [OF ok] remote cached
  have "sorted (map rec_id (records (store (sync growing_env False pantry))))
      \<and> distinct (map rec_id (records (store (sync growing_env False pantry))))"
    unfolding Let_def by blast
  with ok ids show ?thesis by simp
qed

section \<open>Properties of the mutations\<close>

text \<open>
  Claim C5. When the remote create throws, \<open>createRecord\<close> throws the same error and
  leaves the world as it was: nothing is published, no record is added. When the remote
  create returns an identity, the store publishes the previous records followed by
  \<open>{id, ...fields}\<close> (a key \<open>id\<close> of the payload, if there is one, standing in the
  record), the reconciling \<open>sync()\<close> runs from that state, and \<open>createRecord\<close> returns
  the identity the remote assigned.
\<close>

theorem createRecord_remote_first:
  "(odoo_createRecord e flds = Inl err \<longrightarrow> createRecord e flds w = (Inl err, w))
   \<and> (odoo_createRecord e flds = Inr i \<longrightarrow>
        (let appended =
               (store w)\<lparr>records := records (store w) @
                  [\<lparr>rec_id = (case payload_id flds of None \<Rightarrow> i | Some j \<Rightarrow> j),
                    attrs = payload_attrs flds\<rparr>]\<rparr>
         in createRecord e flds w =
              (Inr i, sync e False (w\<lparr>store := appended, published := published w @ [appended]\<rparr>))
          \<and> published (snd (createRecord e flds w)) =
              published w @
                [appended, appended\<lparr>syncing := True, error := []\<rparr>,
                 store (snd (createRecord e flds w))]))"
  by (simp add: createRecord_def spread_new_def Let_def published_sync update_def)

text \<open>
  The remote unreachable; the remote assigning identity 3 to a payload without the key
  \<open>id\<close>; and to one that carries \<open>id: 99\<close>, which is published as 99 and stays beside
  the remote's record 3 after the reconciling sync.
\<close>

theorem createRecord_remote_first_witness:
  "createRecord demo_env jam pantry = (Inl offline, pantry)
   \<and> fst (createRecord online_env jam pantry) = Inr 3
   \<and> records (published (snd (createRecord online_env jam pantry)) ! 0)
       = [item 1 ''Milk'', item 2 ''Eggs'', item 3 ''Jam'']
   \<and> fst (createRecord online_env jam_99 pantry) = Inr 3
   \<and> records (published (snd (createRecord online_env jam_99 pantry)) ! 0)
       = [item 1 ''Milk'', item 2 ''Eggs'', item 99 ''Jam'']
   \<and> records (store (snd (createRecord online_env jam_99 pantry)))
       = [item 1 ''Milk'', item 2 ''Eggs'', item 3 ''Jam'', item 99 ''Jam'']"
proof -
  have "odoo_createRecord demo_env jam = Inl offline"
    by (simp add: demo_env_def)
  with createRecord_remote_first [of demo_env jam offline pantry]
  have a: "createRecord demo_env jam pantry = (Inl offline, pantry)" by simp
  have "odoo_createRecord online_env jam = Inr 3"
    by (simp add: online_env_def demo_env_def)
  with createRecord_remote_first [of online_env jam _ pantry 3]
  have b: "fst (createRecord online_env jam pantry) = Inr 3"
    and c: "records (published (snd (createRecord online_env jam pantry)) ! 0)
       = [item 1 ''Milk'', item 2 ''Eggs'', item 3 ''Jam'']"
    by (auto simp: Let_def pantry_def demo_world_def item_def jam_def)
  let ?w1 = "pantry\<lparr>store := (store pantry)\<lparr>records :=
                 [item 1 ''Milk'', item 2 ''Eggs'', item 99 ''Jam'']\<rparr>,
               published := [(store pantry)\<lparr>records :=
                 [item 1 ''Milk'', item 2 ''Eggs'', item 99 ''Jam'']\<rparr>]\<rparr>"
  have "odoo_createRecord online_env jam_99 = Inr 3"
    by (simp add: online_env_def demo_env_def)
  with createRecord_remote_first [of online_env jam_99 _ pantry 3]
  have run: "createRecord online_env jam_99 pantry = (Inr 3, sync online_env False ?w1)"
    and d: "records (published (snd (createRecord online_env jam_99 pantry)) ! 0)
       = [item 1 ''Milk'', item 2 ''Eggs'', item 99 ''Jam'']"
    by (auto simp: Let_def pantry_def demo_world_def item_def jam_99_def)
  have fetch: "sync_fetch online_env False (lastRecordId (meta (store ?w1)))
                 = Inr (False, [item 3 ''Jam''])"
    by (simp add: sync_fetch_def pantry_def online_env_def demo_defs)
  have merged: "sync_merge False (store ?w1) [item 3 ''Jam'']
                  = [item 1 ''Milk'', item 2 ''Eggs'', item 3 ''Jam'', item 99 ''Jam'']"
    by (simp add: sync_merge_def pantry_def demo_world_def item_def)
  have top: "max_record_id [item 1 ''Milk'', item 2 ''Eggs'', item 3 ''Jam'', item 99 ''Jam'']
               = Inr 99"
    by (simp add: max_record_id_def item_def engine_argument_limit_def)
  from sync_store_success [OF fetch top [folded merged], unfolded merged]
  have f: "records (store (snd (createRecord online_env jam_99 pantry)))
       = [item 1 ''Milk'', item 2 ''Eggs'', item 3 ''Jam'', item 99 ''Jam'']"
    by (simp add: run)
  from a b c d f run show ?thesis by simp
qed

text \<open>
  Claim C6. \<open>deleteRecord\<close> calls the remote delete first. When it throws, the same error
  reaches the caller and the world is as before, so every record that was published is
  still there; when it returns, the records with that identity are filtered out and the
  result is published.
\<close>

theorem deleteRecord_authoritative_first:
  "(odoo_deleteRecord e i = Inl err \<longrightarrow>
        deleteRecord e i w = (Inl err, w)
      \<and> (\<forall>r. r \<in> set (records (store w)) \<longrightarrow>
               r \<in> set (records (store (snd (deleteRecord e i w))))))
   \<and> (odoo_deleteRecord e i = Inr b \<longrightarrow>
        fst (deleteRecord e i w) = Inr True
      \<and> records (store (snd (deleteRecord e i w))) =
          filter (\<lambda>r. rec_id r \<noteq> i) (records (store w))
      \<and> published (snd (deleteRecord e i w)) =
          published w @ [store (snd (deleteRecord e i w))])"
  by (simp add: deleteRecord_def)

theorem deleteRecord_authoritative_first_witness:
  "deleteRecord demo_env 2 pantry = (Inl offline, pantry)
   \<and> item 2 ''Eggs'' \<in> set (records (store (snd (deleteRecord demo_env 2 pantry))))
   \<and> fst (deleteRecord online_env 2 pantry) = Inr True
   \<and> records (store (snd (deleteRecord online_env 2 pantry))) = [item 1 ''Milk'']"
proof -
  have "odoo_deleteRecord demo_env 2 = Inl offline"
    by (simp add: demo_env_def)
  with deleteRecord_authoritative_first [of demo_env 2 offline pantry]
  have a: "deleteRecord demo_env 2 pantry = (Inl offline, pantry)" by simp
  then have a': "item 2 ''Eggs'' \<in> set (records (store (snd (deleteRecord demo_env 2 pantry))))"
    by (simp add: pantry_def demo_world_def)
  have "odoo_deleteRecord online_env 2 = Inr True"
    by (simp add: online_env_def demo_env_def)
  with deleteRecord_authoritative_first [of online_env 2 _ pantry True]
  have b: "fst (deleteRecord online_env 2 pantry) = Inr True"
    and c: "records (store (snd (deleteRecord online_env 2 pantry))) = [item 1 ''Milk'']"
    by (simp_all add: pantry_def demo_world_def item_def)
  from a a' b c show ?thesis by simp
qed

lemma oat_milk_differs: "item 1 ''Oat milk'' \<noteq> item 1 ''Milk''"
  by (auto simp: item_def dest: map_upd_eqD1)

text \<open>
  \<open>updateRecord\<close> awaits the remote update before it touches the store. With the remote
  unreachable the call throws, nothing is published, and the cached record 1 is still
  \<open>Milk\<close>, not the patched \<open>Oat milk\<close>.
\<close>

theorem updateRecord_optimistic_counterexample:
  "odoo_updateRecord demo_env 1 oat_milk = Inl offline
   \<and> fst (updateRecord demo_env 1 oat_milk pantry) = Inl offline
   \<and> published (snd (updateRecord demo_env 1 oat_milk pantry)) = []
   \<and> records (store (snd (updateRecord demo_env 1 oat_milk pantry)))
       = [item 1 ''Milk'', item 2 ''Eggs'']
   \<and> records (store (snd (updateRecord demo_env 1 oat_milk pantry)))
       \<noteq> [item 1 ''Oat milk'', item 2 ''Eggs'']"
  using oat_milk_differs
  by (simp add: updateRecord_def demo_env_def pantry_def demo_world_def)

text \<open>
  Claim C4, as amended. \<open>updateRecord\<close> calls the remote update first. When it throws,
  the same error reaches the caller and the world is as before: no patch is applied or
  published. When it returns, the store publishes the records with \<open>values\<close>
  shallow-merged into those of the given identity (every key of \<open>values\<close> replacing the
  record's, a key \<open>id\<close> included), the reconciling \<open>sync()\<close> runs from that state, and
  \<open>updateRecord\<close> returns true.
\<close>

theorem updateRecord_remote_first:
  "(odoo_updateRecord e i vals = Inl err \<longrightarrow> updateRecord e i vals w = (Inl err, w))
   \<and> (odoo_updateRecord e i vals = Inr b \<longrightarrow>
        (let patched =
               (store w)\<lparr>records :=
                  map (\<lambda>r. if rec_id r = i
                            then \<lparr>rec_id = (case payload_id vals of None \<Rightarrow> rec_id r | Some j \<Rightarrow> j),
                                  attrs = attrs r ++ payload_attrs vals\<rparr>
                            else r)
                    (records (store w))\<rparr>
         in updateRecord e i vals w =
              (Inr True, sync e False (w\<lparr>store := patched, published := published w @ [patched]\<rparr>))
          \<and> published (snd (updateRecord e i vals w)) =
              published w @
                [patched, patched\<lparr>syncing := True, error := []\<rparr>,
                 store (snd (updateRecord e i vals w))]))"
  unfolding updateRecord_def spread_patch_def
  by (simp add: Let_def published_sync update_def)

text \<open>
  The remote unreachable, and the remote accepting the update of record 1: the patched
  pantry is published, the reconciling sync adds the remote's record 3 and leaves the
  patch in place.
\<close>

theorem updateRecord_remote_first_witness:
  "updateRecord demo_env 1 oat_milk pantry = (Inl offline, pantry)
   \<and> fst (updateRecord online_env 1 oat_milk pantry) = Inr True
   \<and> records (published (snd (updateRecord online_env 1 oat_milk pantry)) ! 0)
       = [item 1 ''Oat milk'', item 2 ''Eggs'']
   \<and> records (store (snd (updateRecord online_env 1 oat_milk pantry)))
       = [item 1 ''Oat milk'', item 2 ''Eggs'', item 3 ''Jam'']"
proof -
  have "odoo_updateRecord demo_env 1 oat_milk = Inl offline"
    by (simp add: demo_env_def)
  with updateRecord_remote_first [of demo_env 1 oat_milk offline pantry]
  have a: "updateRecord demo_env 1 oat_milk pantry = (Inl offline, pantry)" by simp
  let ?w1 = "pantry\<lparr>store := (store pantry)\<lparr>records :=
                 [item 1 ''Oat milk'', item 2 ''Eggs'']\<rparr>,
               published := [(store pantry)\<lparr>records :=
                 [item 1 ''Oat milk'', item 2 ''Eggs'']\<rparr>]\<rparr>"
  have "odoo_updateRecord online_env 1 oat_milk = Inr True"
    by (simp add: online_env_def demo_env_def)
  with updateRecord_remote_first [of online_env 1 oat_milk _ pantry True]
  have run: "updateRecord online_env 1 oat_milk pantry = (Inr True, sync online_env False ?w1)"
    and c: "records (published (snd (updateRecord online_env 1 oat_milk pantry)) ! 0)
       = [item 1 ''Oat milk'', item 2 ''Eggs'']"
    by (auto simp: Let_def pantry_def demo_world_def item_def oat_milk_def)
  have fetch: "sync_fetch online_env False (lastRecordId (meta (store ?w1)))
                 = Inr (False, [item 3 ''Jam''])"
    by (simp add: sync_fetch_def pantry_def online_env_def demo_defs)
  have merged: "sync_merge False (store ?w1) [item 3 ''Jam'']
                  = [item 1 ''Oat milk'', item 2 ''Eggs'', item 3 ''Jam'']"
    by (simp add: sync_merge_def pantry_def demo_world_def item_def)
  have top: "max_record_id [item 1 ''Oat milk'', item 2 ''Eggs'', item 3 ''Jam''] = Inr 3"
    by (simp add: max_record_id_def item_def engine_argument_limit_def)
  from sync_store_success [OF fetch top [folded merged], unfolded merged]
  have f: "records (store (snd (updateRecord online_env 1 oat_milk pantry)))
       = [item 1 ''Oat milk'', item 2 ''Eggs'', item 3 ''Jam'']"
    by (simp add: run)
  from a c f run show ?thesis by simp
qed

end
